theory Spec2Isabelle
  imports Main "HOL-Library.Word"
begin

unbundle bit_operations_syntax

section \<open>Data of main.c\<close>

text \<open>
  The firmware in \<^verbatim>\<open>Core/Src/main.c\<close> drives a full bridge from two hardware
  timers.  Its global variables, the two timer handles and the four bridge pins form the
  machine state; every C function is a straight-line sequence of register and variable
  writes, chosen by tests on values read at entry.  The model keeps that shape: a function
  body is a list of statements, and running the list gives the new state.
\<close>

type_synonym uint8_t = "8 word"
type_synonym uint16_t = "16 word"
type_synonym uint32_t = "32 word"

definition RX_SZ :: uint16_t where [simp]: "RX_SZ = 5"
definition PREAMBLE :: uint8_t where [simp]: "PREAMBLE = 0xFF"

definition CMD_SET :: uint8_t where [simp]: "CMD_SET = 0x10"
definition CMD_START :: uint8_t where [simp]: "CMD_START = 0x20"
definition CMD_STOP :: uint8_t where [simp]: "CMD_STOP = 0x30"
definition CMD_READBACK :: uint8_t where [simp]: "CMD_READBACK = 0x40"

definition T1_US_MIN :: uint32_t where [simp]: "T1_US_MIN = 10"
definition T1_US_MAX :: uint32_t where [simp]: "T1_US_MAX = 1000"
definition T2_MS_MIN :: uint32_t where [simp]: "T2_MS_MIN = 1"
definition T2_MS_MAX :: uint32_t where [simp]: "T2_MS_MAX = 10000"

text \<open>\<^verbatim>\<open>typedef struct { uint16_t value; uint8_t flags; } tcfg_t;\<close>\<close>

record tcfg_t =
  tcfg_value :: uint16_t
  tcfg_flags :: uint8_t

datatype run_state_t = ST_IDLE | ST_RUN
datatype exit_mode_t = EXIT_NONE | EXIT_SOFT | EXIT_HARD

text \<open>
  Modelled from the spec: the timer peripheral behind a \<^verbatim>\<open>TIM_HandleTypeDef\<close>.  The
  vendor's driver is not part of the sources; section 9 of the specification names its
  capabilities (start, stop, set period, reset count, clear pending expiry).  The fields are
  the register bits those capabilities act on: counter enable, update interrupt enable,
  pending update flag, auto-reload value and counter.
\<close>

record TIM_HandleTypeDef =
  CEN :: bool
  UIE :: bool
  UIF :: bool
  ARR :: uint32_t
  CNT :: uint32_t

text \<open>The result of \<^verbatim>\<open>tim_by_id\<close>: the address of one of the two handles.\<close>

datatype tim_ref = Ref_htim1 | Ref_htim2

text \<open>The \<^verbatim>\<open>Instance\<close> a handle passed to an interrupt callback points to.\<close>

datatype tim_instance = TIM1 | TIM2 | TIM_other
datatype uart_instance = USART2 | USART_other

record machine =
  g_state :: run_state_t
  g_t1_cnt :: uint8_t
  g_exit :: exit_mode_t
  pulse_count :: uint8_t
  soll_pulse_count :: uint8_t
  command_rcv :: uint8_t
  rx_buf :: "uint8_t list"
  Tcfg :: "nat \<Rightarrow> tcfg_t"
  htim1 :: TIM_HandleTypeDef
  htim2 :: TIM_HandleTypeDef
  pin_Enable_Right :: bool
  pin_Enable_Left :: bool
  pin_Drive_Right :: bool
  pin_Drive_Left :: bool

text \<open>
  \<^verbatim>\<open>Tcfg\<close> is an array of two elements, indices 0 and 1; the map from indices stands
  for the memory at \<^verbatim>\<open>Tcfg[i]\<close>, and a function that would write outside the two
  elements returns \<open>None\<close> (see \<open>apply_set\<close>).  \<^verbatim>\<open>rx_buf\<close> is an array of
  \<^verbatim>\<open>RX_SZ\<close> bytes.
\<close>

section \<open>Statements\<close>

datatype stmt =
    HAL_TIM_Base_Stop tim_ref
  | HAL_TIM_Base_Start_IT tim_ref
  | HAL_TIM_Base_Stop_IT tim_ref
  | HAL_TIM_CLEAR_FLAG tim_ref
  | HAL_TIM_SET_AUTORELOAD tim_ref uint32_t
  | HAL_TIM_SET_COUNTER tim_ref uint32_t
  | Enable_Right bool
  | Enable_Left bool
  | Drive_Right bool
  | Drive_Left bool
  | Set_Tcfg_value nat uint16_t
  | Set_Tcfg_flags nat uint8_t
  | Set_g_state run_state_t
  | Set_g_t1_cnt uint8_t
  | Set_g_exit exit_mode_t
  | Inc_pulse_count
  | Set_soll_pulse_count uint8_t
  | Set_command_rcv uint8_t
  | Set_rx_buf "uint8_t list"

definition upd_tim :: "tim_ref \<Rightarrow> (TIM_HandleTypeDef \<Rightarrow> TIM_HandleTypeDef) \<Rightarrow> machine \<Rightarrow> machine" where
  "upd_tim ht f m = (case ht of Ref_htim1 \<Rightarrow> m\<lparr>htim1 := f (htim1 m)\<rparr>
                              | Ref_htim2 \<Rightarrow> m\<lparr>htim2 := f (htim2 m)\<rparr>)"

text \<open>
  Modelled from the spec: the effect of the vendor driver's calls and macros on the timer
  registers and pins (stop, start with interrupt, clear pending expiry, set period, set
  count, write pin).  The assignments to C variables are those of main.c.
\<close>

fun exec :: "stmt \<Rightarrow> machine \<Rightarrow> machine" where
  "exec (HAL_TIM_Base_Stop ht) m = upd_tim ht (\<lambda>t. t\<lparr>CEN := False\<rparr>) m"
| "exec (HAL_TIM_Base_Start_IT ht) m = upd_tim ht (\<lambda>t. t\<lparr>UIE := True, CEN := True\<rparr>) m"
| "exec (HAL_TIM_Base_Stop_IT ht) m = upd_tim ht (\<lambda>t. t\<lparr>UIE := False, CEN := False\<rparr>) m"
| "exec (HAL_TIM_CLEAR_FLAG ht) m = upd_tim ht (\<lambda>t. t\<lparr>UIF := False\<rparr>) m"
| "exec (HAL_TIM_SET_AUTORELOAD ht v) m = upd_tim ht (\<lambda>t. t\<lparr>ARR := v\<rparr>) m"
| "exec (HAL_TIM_SET_COUNTER ht v) m = upd_tim ht (\<lambda>t. t\<lparr>CNT := v\<rparr>) m"
| "exec (Enable_Right on) m = m\<lparr>pin_Enable_Right := on\<rparr>"
| "exec (Enable_Left on) m = m\<lparr>pin_Enable_Left := on\<rparr>"
| "exec (Drive_Right on) m = m\<lparr>pin_Drive_Right := on\<rparr>"
| "exec (Drive_Left on) m = m\<lparr>pin_Drive_Left := on\<rparr>"
| "exec (Set_Tcfg_value i v) m = m\<lparr>Tcfg := (Tcfg m)(i := (Tcfg m i)\<lparr>tcfg_value := v\<rparr>)\<rparr>"
| "exec (Set_Tcfg_flags i v) m = m\<lparr>Tcfg := (Tcfg m)(i := (Tcfg m i)\<lparr>tcfg_flags := v\<rparr>)\<rparr>"
| "exec (Set_g_state v) m = m\<lparr>g_state := v\<rparr>"
| "exec (Set_g_t1_cnt v) m = m\<lparr>g_t1_cnt := v\<rparr>"
| "exec (Set_g_exit v) m = m\<lparr>g_exit := v\<rparr>"
| "exec Inc_pulse_count m = m\<lparr>pulse_count := pulse_count m + 1\<rparr>"
| "exec (Set_soll_pulse_count v) m = m\<lparr>soll_pulse_count := v\<rparr>"
| "exec (Set_command_rcv v) m = m\<lparr>command_rcv := v\<rparr>"
| "exec (Set_rx_buf v) m = m\<lparr>rx_buf := v\<rparr>"

fun run :: "stmt list \<Rightarrow> machine \<Rightarrow> machine" where
  "run [] m = m"
| "run (s # ss) m = run ss (exec s m)"

section \<open>Pulse shapes\<close>

definition positive_pulse_actions :: "stmt list" where
  "positive_pulse_actions = [Drive_Left True, Enable_Left True, Drive_Right False, Enable_Right True]"

definition negative_pulse_actions :: "stmt list" where
  "negative_pulse_actions = [Drive_Left False, Enable_Left True, Drive_Right True, Enable_Right True]"

definition all_off :: "stmt list" where
  "all_off = [Enable_Right False, Enable_Left False, Drive_Right False, Drive_Left False]"

section \<open>Timer configuration\<close>

definition tim_by_id :: "uint8_t \<Rightarrow> tim_ref" where
  "tim_by_id timer = (if timer = 2 then Ref_htim2 else Ref_htim1)"

text \<open>The locals \<^verbatim>\<open>us\<close> and \<^verbatim>\<open>ticks\<close> of the fast branch of \<^verbatim>\<open>apply_set\<close>.\<close>

definition fast_us :: "uint16_t \<Rightarrow> uint32_t" where
  "fast_us period_field =
     (let us = ucast period_field;
          us = (if us < T1_US_MIN then T1_US_MIN else us);
          us = (if us > T1_US_MAX then T1_US_MAX else us)
      in us)"

definition fast_ticks :: "uint32_t \<Rightarrow> uint32_t" where
  "fast_ticks us =
     (let ticks = (us + 5) div 10;
          ticks = (if ticks = 0 then 1 else ticks)
      in ticks)"

text \<open>The locals \<^verbatim>\<open>ms\<close> and \<^verbatim>\<open>ticks\<close> of the slow branch.\<close>

definition slow_ms :: "uint16_t \<Rightarrow> uint32_t" where
  "slow_ms period_field =
     (let ms = ucast period_field;
          ms = (if ms < T2_MS_MIN then T2_MS_MIN else ms);
          ms = (if ms > T2_MS_MAX then T2_MS_MAX else ms)
      in ms)"

definition slow_ticks :: "uint32_t \<Rightarrow> uint32_t" where
  "slow_ticks ms =
     (let ticks = ms * 10;
          ticks = (if ticks < 5 then 5 else ticks);
          ticks = (if ticks > 100000 then 100000 else ticks)
      in ticks)"

text \<open>
  The statements of \<^verbatim>\<open>apply_set\<close> in program order.  The branch on \<^verbatim>\<open>timer == 1\<close>
  computes \<^verbatim>\<open>ticks\<close> and writes \<^verbatim>\<open>Tcfg[timer-1].value\<close>; the auto-reload register,
  the counter and \<^verbatim>\<open>Tcfg[timer-1].flags\<close> are written after the branch.
\<close>

definition apply_set_body :: "uint8_t \<Rightarrow> uint16_t \<Rightarrow> uint8_t \<Rightarrow> stmt list" where
  "apply_set_body timer period_field flags =
     (let ht = tim_by_id timer;
          (ticks, store) =
            (if timer = 1
             then (fast_ticks (fast_us period_field),
                   Set_Tcfg_value (unat timer - 1) (ucast (fast_us period_field)))
             else (slow_ticks (slow_ms period_field),
                   Set_Tcfg_value (unat timer - 1) (ucast (slow_ms period_field))))
      in [HAL_TIM_Base_Stop ht,
          HAL_TIM_CLEAR_FLAG ht,
          store,
          HAL_TIM_SET_AUTORELOAD ht (ticks - 1),
          HAL_TIM_SET_COUNTER ht 0,
          Set_Tcfg_flags (unat timer - 1) flags])"

text \<open>
  \<^verbatim>\<open>Tcfg[timer-1]\<close> lies inside the array only for \<^verbatim>\<open>timer\<close> 1 or 2, the two values
  the command loop passes.  For any other value the C program writes outside the array;
  the model returns \<open>None\<close> there.
\<close>

definition apply_set :: "uint8_t \<Rightarrow> uint16_t \<Rightarrow> uint8_t \<Rightarrow> machine \<Rightarrow> machine option" where
  "apply_set timer period_field flags m =
     (if timer = 1 \<or> timer = 2 then Some (run (apply_set_body timer period_field flags) m)
      else None)"

section \<open>Sequencer\<close>

definition seq_start_body :: "machine \<Rightarrow> stmt list" where
  "seq_start_body m =
     (if g_state m \<noteq> ST_IDLE then []
      else [Set_g_exit EXIT_NONE,
            Set_g_t1_cnt 0,
            HAL_TIM_SET_COUNTER Ref_htim1 0,
            HAL_TIM_SET_COUNTER Ref_htim2 0,
            HAL_TIM_CLEAR_FLAG Ref_htim1,
            HAL_TIM_CLEAR_FLAG Ref_htim2,
            HAL_TIM_Base_Start_IT Ref_htim1,
            HAL_TIM_Base_Start_IT Ref_htim2,
            Set_g_state ST_RUN])"

definition seq_start :: "machine \<Rightarrow> machine" where
  "seq_start m = run (seq_start_body m) m"

definition seq_request_soft_stop_body :: "stmt list" where
  "seq_request_soft_stop_body = [Set_g_exit EXIT_SOFT]"

definition seq_request_soft_stop :: "machine \<Rightarrow> machine" where
  "seq_request_soft_stop m = run seq_request_soft_stop_body m"

definition seq_hard_stop_body :: "stmt list" where
  "seq_hard_stop_body =
     [HAL_TIM_Base_Stop_IT Ref_htim1,
      HAL_TIM_Base_Stop_IT Ref_htim2,
      HAL_TIM_CLEAR_FLAG Ref_htim1,
      HAL_TIM_CLEAR_FLAG Ref_htim2] @
     all_off @
     [Set_g_state ST_IDLE,
      Set_g_t1_cnt 0,
      Set_g_exit EXIT_NONE]"

definition seq_hard_stop :: "machine \<Rightarrow> machine" where
  "seq_hard_stop m = run seq_hard_stop_body m"

section \<open>Interrupt callbacks\<close>

text \<open>
  \<^verbatim>\<open>HAL_TIM_PeriodElapsedCallback\<close>.  In the \<^verbatim>\<open>switch\<close> on \<^verbatim>\<open>g_t1_cnt\<close>, case 2
  has no \<^verbatim>\<open>break\<close> and falls into the empty \<^verbatim>\<open>default\<close>.
\<close>

definition HAL_TIM_PeriodElapsedCallback_body :: "tim_instance \<Rightarrow> machine \<Rightarrow> stmt list" where
  "HAL_TIM_PeriodElapsedCallback_body inst m =
     (if inst = TIM1 then
        (if g_state m \<noteq> ST_RUN then []
         else if g_t1_cnt m = 0 then positive_pulse_actions @ [Set_g_t1_cnt 1]
         else if g_t1_cnt m = 1 then negative_pulse_actions @ [Set_g_t1_cnt 2]
         else if g_t1_cnt m = 2 then
           all_off @ [HAL_TIM_Base_Stop_IT Ref_htim1, HAL_TIM_CLEAR_FLAG Ref_htim1]
         else [])
      else if inst = TIM2 then
        (if g_state m \<noteq> ST_RUN then []
         else if g_exit m = EXIT_SOFT then
           [HAL_TIM_Base_Stop_IT Ref_htim2,
            HAL_TIM_CLEAR_FLAG Ref_htim2,
            Set_g_state ST_IDLE,
            Set_g_t1_cnt 0,
            Set_g_exit EXIT_NONE]
         else
           [Set_g_t1_cnt 0,
            Inc_pulse_count,
            HAL_TIM_SET_COUNTER Ref_htim1 0,
            HAL_TIM_CLEAR_FLAG Ref_htim1,
            HAL_TIM_Base_Start_IT Ref_htim1])
      else [])"

definition HAL_TIM_PeriodElapsedCallback :: "tim_instance \<Rightarrow> machine \<Rightarrow> machine" where
  "HAL_TIM_PeriodElapsedCallback inst m = run (HAL_TIM_PeriodElapsedCallback_body inst m) m"

text \<open>
  \<^verbatim>\<open>HAL_UARTEx_RxEventCallback\<close>: \<open>rx\<close> is the content of the receive buffer the
  peripheral has filled and \<open>Size\<close> the number of bytes received.  Re-arming the
  reception does not touch the modelled state.
\<close>

definition HAL_UARTEx_RxEventCallback_body ::
    "uart_instance \<Rightarrow> uint8_t list \<Rightarrow> uint16_t \<Rightarrow> stmt list" where
  "HAL_UARTEx_RxEventCallback_body inst rx Size =
     (if inst = USART2 then
        (if Size = RX_SZ \<and> rx ! 0 = PREAMBLE
         then [Set_rx_buf (take (unat Size) rx), Set_command_rcv 1]
         else [])
      else [])"

definition HAL_UARTEx_RxEventCallback ::
    "uart_instance \<Rightarrow> uint8_t list \<Rightarrow> uint16_t \<Rightarrow> machine \<Rightarrow> machine" where
  "HAL_UARTEx_RxEventCallback inst rx Size m = run (HAL_UARTEx_RxEventCallback_body inst rx Size) m"

section \<open>Command loop\<close>

text \<open>
  One pass of the \<^verbatim>\<open>while (1)\<close> loop of \<^verbatim>\<open>main\<close>.  The loop either goes on, or
  \<^verbatim>\<open>main\<close> returns (the hard-stop branch of the STOP command), or a write outside
  \<^verbatim>\<open>Tcfg\<close> has happened.  The \<^verbatim>\<open>printf\<close> calls and the frame sent by
  \<^verbatim>\<open>send_readback\<close> go to the serial line and leave the modelled state as it is.
\<close>

datatype outcome = Continue machine | Return machine | Out_of_bounds

definition rx_value :: "uint8_t list \<Rightarrow> uint16_t" where
  "rx_value buf = (ucast (buf ! 2) OR push_bit 8 (ucast (buf ! 3)))"

definition main_loop :: "machine \<Rightarrow> outcome" where
  "main_loop m =
     (if command_rcv m = 1 then
        (let m1 = exec (Set_command_rcv 0) m;
             cmd = rx_buf m1 ! 1;
             base = cmd AND 0xF0;
             timer = (if cmd AND 0x01 \<noteq> 0 then 2 else 1);
             val = rx_value (rx_buf m1);
             flags = rx_buf m1 ! 4
         in if base = CMD_SET then
              (case apply_set timer val flags m1 of
                 None \<Rightarrow> Out_of_bounds
               | Some m2 \<Rightarrow> Continue m2)
            else if base = CMD_START then
              Continue (seq_start (exec (Set_soll_pulse_count (ucast val)) m1))
            else if base = CMD_STOP then
              (if g_exit m1 = EXIT_HARD then Return (seq_hard_stop m1)
               else Continue (seq_request_soft_stop m1))
            else if base = CMD_READBACK then Continue m1
            else Continue m1)
      else Continue m)"

section \<open>Start-up state and events\<close>

text \<open>
  The state when \<^verbatim>\<open>main\<close> enters its loop: the initialisers of the globals, the periods
  \<^verbatim>\<open>MX_TIM1_Init\<close> and \<^verbatim>\<open>MX_TIM2_Init\<close> configure, and the pins as
  \<^verbatim>\<open>MX_GPIO_Init\<close> resets them.
\<close>

definition boot :: machine where
  "boot = \<lparr> g_state = ST_IDLE, g_t1_cnt = 0, g_exit = EXIT_NONE,
            pulse_count = 0, soll_pulse_count = 10, command_rcv = 0,
            rx_buf = [0, 0, 0, 0, 0],
            Tcfg = (\<lambda>i. \<lparr>tcfg_value = 0, tcfg_flags = 0\<rparr>),
            htim1 = \<lparr>CEN = False, UIE = False, UIF = False, ARR = 0, CNT = 0\<rparr>,
            htim2 = \<lparr>CEN = False, UIE = False, UIF = False, ARR = 0xFFFFFFFF, CNT = 0\<rparr>,
            pin_Enable_Right = False, pin_Enable_Left = False,
            pin_Drive_Right = False, pin_Drive_Left = False \<rparr>"

text \<open>
  What can happen to the running firmware: a timer interrupt, a receive interrupt, or one
  more pass of the command loop.  Once \<^verbatim>\<open>main\<close> has returned the loop makes no more
  passes; interrupts still arrive.
\<close>

datatype event =
    Tim_elapsed tim_instance
  | Uart_rx uart_instance "uint8_t list" uint16_t
  | Loop_pass

fun fire :: "event \<Rightarrow> outcome \<Rightarrow> outcome" where
  "fire e Out_of_bounds = Out_of_bounds"
| "fire (Tim_elapsed inst) (Continue m) = Continue (HAL_TIM_PeriodElapsedCallback inst m)"
| "fire (Tim_elapsed inst) (Return m) = Return (HAL_TIM_PeriodElapsedCallback inst m)"
| "fire (Uart_rx inst rx Size) (Continue m) = Continue (HAL_UARTEx_RxEventCallback inst rx Size m)"
| "fire (Uart_rx inst rx Size) (Return m) = Return (HAL_UARTEx_RxEventCallback inst rx Size m)"
| "fire Loop_pass (Continue m) = main_loop m"
| "fire Loop_pass (Return m) = Return m"

fun run_events :: "event list \<Rightarrow> outcome \<Rightarrow> outcome" where
  "run_events [] out = out"
| "run_events (e # es) out = run_events es (fire e out)"

section \<open>Observations used by the properties\<close>

text \<open>The four bridge outputs: drive-left, enable-left, drive-right, enable-right.\<close>

definition bridge :: "machine \<Rightarrow> bool \<times> bool \<times> bool \<times> bool" where
  "bridge m = (pin_Drive_Left m, pin_Enable_Left m, pin_Drive_Right m, pin_Enable_Right m)"

text \<open>What a statement of \<^verbatim>\<open>apply_set\<close> does, for the order of its steps.\<close>

definition stops_timer :: "tim_ref \<Rightarrow> stmt \<Rightarrow> bool" where
  "stops_timer ht s = (s = HAL_TIM_Base_Stop ht)"

definition clears_pending :: "tim_ref \<Rightarrow> stmt \<Rightarrow> bool" where
  "clears_pending ht s = (s = HAL_TIM_CLEAR_FLAG ht)"

fun programs_period :: "tim_ref \<Rightarrow> stmt \<Rightarrow> bool" where
  "programs_period ht (HAL_TIM_SET_AUTORELOAD h v) = (h = ht)"
| "programs_period ht s = False"

definition resets_count :: "tim_ref \<Rightarrow> stmt \<Rightarrow> bool" where
  "resets_count ht s = (s = HAL_TIM_SET_COUNTER ht 0)"

fun records_value :: "stmt \<Rightarrow> bool" where
  "records_value (Set_Tcfg_value i v) = True"
| "records_value s = False"

fun records_flags :: "stmt \<Rightarrow> bool" where
  "records_flags (Set_Tcfg_flags i v) = True"
| "records_flags s = False"

fun occurs :: "(stmt \<Rightarrow> bool) \<Rightarrow> stmt list \<Rightarrow> bool" where
  "occurs p [] = False"
| "occurs p (s # ss) = (p s \<or> occurs p ss)"

text \<open>
  \<open>all_before p q ss\<close>: in the statement sequence \<open>ss\<close> a \<open>p\<close> step and a \<open>q\<close> step
  both happen, and every \<open>p\<close> step happens before the first \<open>q\<close> step.
\<close>

definition all_before :: "(stmt \<Rightarrow> bool) \<Rightarrow> (stmt \<Rightarrow> bool) \<Rightarrow> stmt list \<Rightarrow> bool" where
  "all_before p q ss =
     (let front = takeWhile (\<lambda>s. \<not> q s) ss;
          rest = dropWhile (\<lambda>s. \<not> q s) ss
      in occurs p front \<and> occurs q rest \<and> \<not> occurs p rest)"

text \<open>
  The order of steps in the words of the specification: stop, clear the pending expiry,
  program the period, reset the count, and only then record value and flags.
\<close>

definition order_as_specified :: "tim_ref \<Rightarrow> stmt list \<Rightarrow> bool" where
  "order_as_specified ht ss =
     (all_before (stops_timer ht) (clears_pending ht) ss \<and>
      all_before (clears_pending ht) (programs_period ht) ss \<and>
      all_before (programs_period ht) (resets_count ht) ss \<and>
      all_before (resets_count ht) records_value ss \<and>
      all_before (resets_count ht) records_flags ss)"

text \<open>
  The order with the value recorded between clearing the pending expiry and programming
  the period.
\<close>

definition order_in_code :: "tim_ref \<Rightarrow> stmt list \<Rightarrow> bool" where
  "order_in_code ht ss =
     (all_before (stops_timer ht) (clears_pending ht) ss \<and>
      all_before (clears_pending ht) records_value ss \<and>
      all_before records_value (programs_period ht) ss \<and>
      all_before (programs_period ht) (resets_count ht) ss \<and>
      all_before (resets_count ht) records_flags ss)"

text \<open>Statements that would latch the hard exit, and the outcomes in which the command
  loop is still running with no hard exit latched.\<close>

fun assigns_hard_exit :: "stmt \<Rightarrow> bool" where
  "assigns_hard_exit (Set_g_exit v) = (v = EXIT_HARD)"
| "assigns_hard_exit s = False"

definition looping_without_hard_exit :: "outcome \<Rightarrow> bool" where
  "looping_without_hard_exit out =
     (case out of Continue m \<Rightarrow> g_exit m \<noteq> EXIT_HARD
                | Return m \<Rightarrow> False
                | Out_of_bounds \<Rightarrow> False)"

section \<open>Word arithmetic of the tick conversion\<close>

lemma unat_ucast_16_32: "unat (ucast (v :: uint16_t) :: uint32_t) = unat v"
proof -
  have "unat v < 2 ^ 16"
    using unsigned_less [of v, where 'a = nat] by simp
  then show ?thesis
    by (simp add: unsigned_ucast_eq take_bit_nat_eq_self)
qed

lemma unat_ucast_32_16: "unat w < 65536 \<Longrightarrow> unat (ucast (w :: uint32_t) :: uint16_t) = unat w"
  by (simp add: unsigned_ucast_eq take_bit_nat_eq_self)

lemma unat_ucast_16_8: "unat (ucast (v :: uint16_t) :: uint8_t) = unat v mod 256"
  by (simp add: unsigned_ucast_eq take_bit_eq_mod)

lemma unat_pred: "0 < unat (w :: uint32_t) \<Longrightarrow> unat (w - 1) + 1 = unat w"
  by (simp add: unat_sub word_le_nat_alt)

lemma unat_fast_us: "unat (fast_us v) = min 1000 (max 10 (unat v))"
  unfolding fast_us_def Let_def
  by (simp add: word_less_nat_alt unat_ucast_16_32)

lemma fast_us_readback:
  "(ucast (fast_us v) :: uint16_t) = (if v < 10 then 10 else if 1000 < v then 1000 else v)"
  apply (rule word_unat_eq_iff [THEN iffD2])
  apply (subst unat_ucast_32_16)
   apply (simp add: unat_fast_us)
  apply (simp add: unat_fast_us word_less_nat_alt)
  done

lemma unat_fast_ticks:
  "unat us \<le> 1000 \<Longrightarrow> unat (fast_ticks us) = max 1 ((unat us + 5) div 10)"
  unfolding fast_ticks_def Let_def
  by (simp add: unat_div unat_word_ariths word_less_nat_alt unat_eq_0 [symmetric]
      del: unat_eq_0)

lemma unat_slow_ms: "unat (slow_ms v) = min 10000 (max 1 (unat v))"
  unfolding slow_ms_def Let_def
  by (simp add: word_less_nat_alt unat_ucast_16_32)

lemma slow_ms_readback:
  "(ucast (slow_ms v) :: uint16_t) = (if v < 1 then 1 else if 10000 < v then 10000 else v)"
  apply (rule word_unat_eq_iff [THEN iffD2])
  apply (subst unat_ucast_32_16)
   apply (simp add: unat_slow_ms)
  apply (simp add: unat_slow_ms word_less_nat_alt)
  done

lemma unat_slow_ticks:
  "unat ms \<le> 10000 \<Longrightarrow> unat (slow_ticks ms) = min 100000 (max 5 (10 * unat ms))"
  unfolding slow_ticks_def Let_def
  by (simp add: unat_word_ariths word_less_nat_alt)

section \<open>SET on the fast channel\<close>

lemma apply_set_fast_state:
  "apply_set 1 v fl m = Some m' \<Longrightarrow>
     tcfg_value (Tcfg m' 0) = ucast (fast_us v) \<and> ARR (htim1 m') = fast_ticks (fast_us v) - 1"
  by (auto simp: apply_set_def apply_set_body_def tim_by_id_def upd_tim_def Let_def)

text \<open>
  C1.  A SET on the fast channel (\<^verbatim>\<open>timer == 1\<close>) with 16-bit value \<open>v\<close> always
  succeeds.  The stored value is \<open>v\<close> itself when \<open>v\<close> lies in 10..1000, 10 when \<open>v\<close> is
  below 10 and 1000 when it is above 1000.  The programmed period, auto-reload plus one, is
  the clamped value plus 5, divided by 10, and at least 1 tick.
\<close>

theorem fast_set_clamps_and_rounds:
  "\<exists>m'. apply_set 1 v fl m = Some m' \<and>
     tcfg_value (Tcfg m' 0) = (if v < 10 then 10 else if 1000 < v then 1000 else v) \<and>
     unat (tcfg_value (Tcfg m' 0)) = min 1000 (max 10 (unat v)) \<and>
     unat (ARR (htim1 m')) + 1 = max 1 ((min 1000 (max 10 (unat v)) + 5) div 10)"
proof -
  obtain m' where m': "apply_set 1 v fl m = Some m'"
    by (simp add: apply_set_def)
  note st = apply_set_fast_state [OF m']
  have us: "unat (fast_us v) \<le> 1000"
    by (simp add: unat_fast_us)
  have ticks: "unat (fast_ticks (fast_us v)) = max 1 ((min 1000 (max 10 (unat v)) + 5) div 10)"
    using unat_fast_ticks [OF us] by (simp add: unat_fast_us)
  have "tcfg_value (Tcfg m' 0) = (if v < 10 then 10 else if 1000 < v then 1000 else v)"
    using st by (simp add: fast_us_readback)
  moreover have "unat (tcfg_value (Tcfg m' 0)) = min 1000 (max 10 (unat v))"
    using st us by (simp add: unat_ucast_32_16 unat_fast_us)
  moreover have "unat (ARR (htim1 m')) + 1 = max 1 ((min 1000 (max 10 (unat v)) + 5) div 10)"
  proof -
    have "0 < unat (fast_ticks (fast_us v))"
      using ticks by simp
    from unat_pred [OF this] show ?thesis
      using st ticks by simp
  qed
  ultimately show ?thesis
    using m' by blast
qed

section \<open>SET on the slow channel\<close>

lemma apply_set_slow_state:
  "apply_set 2 v fl m = Some m' \<Longrightarrow>
     tcfg_value (Tcfg m' 1) = ucast (slow_ms v) \<and> ARR (htim2 m') = slow_ticks (slow_ms v) - 1"
  by (auto simp: apply_set_def apply_set_body_def tim_by_id_def upd_tim_def Let_def)

text \<open>
  C2.  A SET on the slow channel (\<^verbatim>\<open>timer == 2\<close>) with 16-bit value \<open>v\<close> always
  succeeds.  The stored value is \<open>v\<close> clamped to 1..10000 milliseconds, and the programmed
  period, auto-reload plus one, is 10 times the clamped value, not below 5 and not above
  100000 ticks.
\<close>

theorem slow_set_clamps_and_scales:
  "\<exists>m'. apply_set 2 v fl m = Some m' \<and>
     tcfg_value (Tcfg m' 1) = (if v < 1 then 1 else if 10000 < v then 10000 else v) \<and>
     unat (tcfg_value (Tcfg m' 1)) = min 10000 (max 1 (unat v)) \<and>
     unat (ARR (htim2 m')) + 1 = min 100000 (max 5 (10 * min 10000 (max 1 (unat v))))"
proof -
  obtain m' where m': "apply_set 2 v fl m = Some m'"
    by (simp add: apply_set_def)
  note st = apply_set_slow_state [OF m']
  have ms: "unat (slow_ms v) \<le> 10000"
    by (simp add: unat_slow_ms)
  have ticks:
    "unat (slow_ticks (slow_ms v)) = min 100000 (max 5 (10 * min 10000 (max 1 (unat v))))"
    using unat_slow_ticks [OF ms] by (simp add: unat_slow_ms)
  have "tcfg_value (Tcfg m' 1) = (if v < 1 then 1 else if 10000 < v then 10000 else v)"
    using st by (simp add: slow_ms_readback)
  moreover have "unat (tcfg_value (Tcfg m' 1)) = min 10000 (max 1 (unat v))"
    using st ms by (simp add: unat_ucast_32_16 unat_slow_ms)
  moreover have
    "unat (ARR (htim2 m')) + 1 = min 100000 (max 5 (10 * min 10000 (max 1 (unat v))))"
  proof -
    have "0 < unat (slow_ticks (slow_ms v))"
      using ticks by simp
    from unat_pred [OF this] show ?thesis
      using st ticks by simp
  qed
  ultimately show ?thesis
    using m' by blast
qed

section \<open>Order of the steps of apply_set\<close>

text \<open>
  C3, as stated, fails.  For a SET of 100 microseconds on the fast channel the steps are
  not in the specified order: the value is recorded before the period is programmed, not
  after the count is reset.
\<close>

theorem apply_set_order_counterexample:
  "\<not> order_as_specified Ref_htim1 (apply_set_body 1 100 0) \<and>
   all_before records_value (programs_period Ref_htim1) (apply_set_body 1 100 0)"
  by (simp add: order_as_specified_def all_before_def apply_set_body_def tim_by_id_def
      stops_timer_def clears_pending_def resets_count_def Let_def)

text \<open>
  C3, amended.  Every call of \<open>apply_set\<close> performs six steps on the addressed timer in
  this order: stop the timer, clear its pending expiry, record the configured value,
  program the new period, reset the count to zero, and after all of these record the
  flags.
\<close>

theorem apply_set_order:
  "order_in_code (tim_by_id timer) (apply_set_body timer period_field flags) \<and>
   length (apply_set_body timer period_field flags) = 6"
  by (simp add: order_in_code_def all_before_def apply_set_body_def
      stops_timer_def clears_pending_def resets_count_def Let_def)

section \<open>Soft stop request\<close>

text \<open>
  C4, as stated, fails.  In the start-up state the sequencer is idle, and a soft-stop
  request there changes the exit request.
\<close>

theorem soft_stop_while_idle_counterexample:
  "g_state boot = ST_IDLE \<and> g_exit (seq_request_soft_stop boot) \<noteq> g_exit boot"
  by (simp add: boot_def seq_request_soft_stop_def seq_request_soft_stop_body_def)

text \<open>
  C4, amended.  \<open>seq_request_soft_stop\<close> records the soft exit request in every state,
  running or idle; it changes neither the run state, nor the phase, nor either timer, nor
  the bridge outputs.
\<close>

theorem soft_stop_latches_in_every_state:
  "g_exit (seq_request_soft_stop m) = EXIT_SOFT \<and>
   g_state (seq_request_soft_stop m) = g_state m \<and>
   g_t1_cnt (seq_request_soft_stop m) = g_t1_cnt m \<and>
   htim1 (seq_request_soft_stop m) = htim1 m \<and>
   htim2 (seq_request_soft_stop m) = htim2 m \<and>
   bridge (seq_request_soft_stop m) = bridge m"
  by (simp add: seq_request_soft_stop_def seq_request_soft_stop_body_def bridge_def)

section \<open>Start while running\<close>

lemmas seq_defs = seq_start_def seq_start_body_def seq_request_soft_stop_def
  seq_request_soft_stop_body_def upd_tim_def

text \<open>
  C5.  In a state with the sequencer running, \<open>seq_start\<close> changes nothing: the phase,
  the exit request and both timers (so their armed status) are as before.
\<close>

theorem start_while_running_is_noop:
  "g_state m = ST_RUN \<Longrightarrow>
     seq_start m = m \<and>
     g_t1_cnt (seq_start m) = g_t1_cnt m \<and> g_exit (seq_start m) = g_exit m \<and>
     htim1 (seq_start m) = htim1 m \<and> htim2 (seq_start m) = htim2 m"
  by (simp add: seq_start_def seq_start_body_def)

text \<open>The state after a first start is running, with both timers armed; a second start
  leaves it as it is.\<close>

theorem start_while_running_is_noop_witness:
  "g_state (seq_start boot) = ST_RUN \<and> seq_start (seq_start boot) = seq_start boot \<and>
   CEN (htim1 (seq_start (seq_start boot))) \<and> CEN (htim2 (seq_start (seq_start boot)))"
proof -
  have running: "g_state (seq_start boot) = ST_RUN"
    by (simp add: seq_defs boot_def)
  have "CEN (htim1 (seq_start boot)) \<and> CEN (htim2 (seq_start boot))"
    by (simp add: seq_defs boot_def)
  with running start_while_running_is_noop [OF running] show ?thesis
    by simp
qed

section \<open>Fast timer expiry\<close>

lemmas tim_cb_defs = HAL_TIM_PeriodElapsedCallback_def HAL_TIM_PeriodElapsedCallback_body_def
  positive_pulse_actions_def negative_pulse_actions_def all_off_def upd_tim_def bridge_def

lemma fast_expiry_phase0:
  "g_state m = ST_RUN \<Longrightarrow> g_t1_cnt m = 0 \<Longrightarrow>
     bridge (HAL_TIM_PeriodElapsedCallback TIM1 m) = (True, True, False, True) \<and>
     g_t1_cnt (HAL_TIM_PeriodElapsedCallback TIM1 m) = 1 \<and>
     g_state (HAL_TIM_PeriodElapsedCallback TIM1 m) = ST_RUN"
  by (simp add: tim_cb_defs)

lemma fast_expiry_phase1:
  "g_state m = ST_RUN \<Longrightarrow> g_t1_cnt m = 1 \<Longrightarrow>
     bridge (HAL_TIM_PeriodElapsedCallback TIM1 m) = (False, True, True, True) \<and>
     g_t1_cnt (HAL_TIM_PeriodElapsedCallback TIM1 m) = 2 \<and>
     g_state (HAL_TIM_PeriodElapsedCallback TIM1 m) = ST_RUN"
  by (simp add: tim_cb_defs)

lemma fast_expiry_phase2:
  "g_state m = ST_RUN \<Longrightarrow> g_t1_cnt m = 2 \<Longrightarrow>
     bridge (HAL_TIM_PeriodElapsedCallback TIM1 m) = (False, False, False, False) \<and>
     g_t1_cnt (HAL_TIM_PeriodElapsedCallback TIM1 m) = 2 \<and>
     g_state (HAL_TIM_PeriodElapsedCallback TIM1 m) = ST_RUN \<and>
     \<not> CEN (htim1 (HAL_TIM_PeriodElapsedCallback TIM1 m)) \<and>
     \<not> UIE (htim1 (HAL_TIM_PeriodElapsedCallback TIM1 m)) \<and>
     \<not> UIF (htim1 (HAL_TIM_PeriodElapsedCallback TIM1 m))"
  by (simp add: tim_cb_defs)

text \<open>
  C6.  From a running state in phase 0, four successive fast-timer expiries give: the
  positive-pulse outputs (drive-left and both enables on, drive-right off) and phase 1;
  the negative-pulse outputs (drive-right and both enables on, drive-left off) and phase 2;
  all outputs off with the fast timer stopped, its pending expiry cleared and the phase
  still 2; and on the fourth expiry the same bridge outputs as after the third.
\<close>

theorem fast_expiry_sequence:
  assumes "g_state m = ST_RUN" and "g_t1_cnt m = 0"
  shows "let m1 = HAL_TIM_PeriodElapsedCallback TIM1 m;
             m2 = HAL_TIM_PeriodElapsedCallback TIM1 m1;
             m3 = HAL_TIM_PeriodElapsedCallback TIM1 m2;
             m4 = HAL_TIM_PeriodElapsedCallback TIM1 m3
         in bridge m1 = (True, True, False, True) \<and> g_t1_cnt m1 = 1 \<and>
            bridge m2 = (False, True, True, True) \<and> g_t1_cnt m2 = 2 \<and>
            bridge m3 = (False, False, False, False) \<and> g_t1_cnt m3 = 2 \<and>
            \<not> CEN (htim1 m3) \<and> \<not> UIE (htim1 m3) \<and> \<not> UIF (htim1 m3) \<and>
            bridge m4 = bridge m3 \<and> g_t1_cnt m4 = 2"
proof -
  define m1 where "m1 = HAL_TIM_PeriodElapsedCallback TIM1 m"
  define m2 where "m2 = HAL_TIM_PeriodElapsedCallback TIM1 m1"
  define m3 where "m3 = HAL_TIM_PeriodElapsedCallback TIM1 m2"
  define m4 where "m4 = HAL_TIM_PeriodElapsedCallback TIM1 m3"
  have s1: "bridge m1 = (True, True, False, True) \<and> g_t1_cnt m1 = 1 \<and> g_state m1 = ST_RUN"
    unfolding m1_def using assms by (rule fast_expiry_phase0)
  have s2: "bridge m2 = (False, True, True, True) \<and> g_t1_cnt m2 = 2 \<and> g_state m2 = ST_RUN"
    unfolding m2_def using s1 by (intro fast_expiry_phase1) simp_all
  have s3: "bridge m3 = (False, False, False, False) \<and> g_t1_cnt m3 = 2 \<and>
            g_state m3 = ST_RUN \<and>
            \<not> CEN (htim1 m3) \<and> \<not> UIE (htim1 m3) \<and> \<not> UIF (htim1 m3)"
    unfolding m3_def using s2 by (intro fast_expiry_phase2) simp_all
  have s4: "bridge m4 = (False, False, False, False) \<and> g_t1_cnt m4 = 2"
    unfolding m4_def using s3 fast_expiry_phase2 [of m3] by simp
  show ?thesis
    using s1 s2 s3 s4 by (simp add: Let_def m1_def m2_def m3_def m4_def)
qed

text \<open>The state after a start from the start-up state is running in phase 0; the first two
  expiries there give the positive and then the negative pulse.\<close>

theorem fast_expiry_sequence_witness:
  "g_state (seq_start boot) = ST_RUN \<and> g_t1_cnt (seq_start boot) = 0 \<and>
   bridge (HAL_TIM_PeriodElapsedCallback TIM1 (seq_start boot)) = (True, True, False, True) \<and>
   bridge (HAL_TIM_PeriodElapsedCallback TIM1 (HAL_TIM_PeriodElapsedCallback TIM1 (seq_start boot)))
     = (False, True, True, True)"
proof -
  have running: "g_state (seq_start boot) = ST_RUN"
    by (simp add: seq_defs boot_def)
  have phase: "g_t1_cnt (seq_start boot) = 0"
    by (simp add: seq_defs boot_def)
  from fast_expiry_sequence [OF running phase] running phase show ?thesis
    by (simp add: Let_def)
qed

section \<open>Slow timer expiry\<close>

text \<open>
  C7.  On a slow-timer expiry while running: with a soft stop requested, the slow timer is
  stopped with its pending expiry cleared and the machine becomes idle with phase 0 and no
  exit request; otherwise the machine stays running, the phase is reset to 0, the pulse
  counter is incremented (an 8-bit counter, so modulo 256) and the fast timer is reset,
  cleared and started again.  While idle the handler changes nothing.
\<close>

theorem slow_expiry_cases:
  "(g_state m = ST_RUN \<and> g_exit m = EXIT_SOFT \<longrightarrow>
      g_state (HAL_TIM_PeriodElapsedCallback TIM2 m) = ST_IDLE \<and>
      g_t1_cnt (HAL_TIM_PeriodElapsedCallback TIM2 m) = 0 \<and>
      g_exit (HAL_TIM_PeriodElapsedCallback TIM2 m) = EXIT_NONE \<and>
      \<not> CEN (htim2 (HAL_TIM_PeriodElapsedCallback TIM2 m)) \<and>
      \<not> UIE (htim2 (HAL_TIM_PeriodElapsedCallback TIM2 m)) \<and>
      \<not> UIF (htim2 (HAL_TIM_PeriodElapsedCallback TIM2 m))) \<and>
   (g_state m = ST_RUN \<and> g_exit m \<noteq> EXIT_SOFT \<longrightarrow>
      g_state (HAL_TIM_PeriodElapsedCallback TIM2 m) = ST_RUN \<and>
      g_t1_cnt (HAL_TIM_PeriodElapsedCallback TIM2 m) = 0 \<and>
      pulse_count (HAL_TIM_PeriodElapsedCallback TIM2 m) = pulse_count m + 1 \<and>
      CNT (htim1 (HAL_TIM_PeriodElapsedCallback TIM2 m)) = 0 \<and>
      \<not> UIF (htim1 (HAL_TIM_PeriodElapsedCallback TIM2 m)) \<and>
      UIE (htim1 (HAL_TIM_PeriodElapsedCallback TIM2 m)) \<and>
      CEN (htim1 (HAL_TIM_PeriodElapsedCallback TIM2 m))) \<and>
   (g_state m = ST_IDLE \<longrightarrow> HAL_TIM_PeriodElapsedCallback TIM2 m = m)"
  by (simp add: HAL_TIM_PeriodElapsedCallback_def HAL_TIM_PeriodElapsedCallback_body_def
      upd_tim_def)

text \<open>One state for each case: running with a soft stop requested, running without, and
  the idle start-up state.\<close>

theorem slow_expiry_cases_witness:
  "(g_state (seq_request_soft_stop (seq_start boot)) = ST_RUN \<and>
    g_exit (seq_request_soft_stop (seq_start boot)) = EXIT_SOFT \<and>
    g_state (HAL_TIM_PeriodElapsedCallback TIM2 (seq_request_soft_stop (seq_start boot)))
      = ST_IDLE) \<and>
   (g_state (seq_start boot) = ST_RUN \<and> g_exit (seq_start boot) \<noteq> EXIT_SOFT \<and>
    pulse_count (HAL_TIM_PeriodElapsedCallback TIM2 (seq_start boot)) = 1 \<and>
    CEN (htim1 (HAL_TIM_PeriodElapsedCallback TIM2 (seq_start boot)))) \<and>
   (g_state boot = ST_IDLE \<and> HAL_TIM_PeriodElapsedCallback TIM2 boot = boot)"
proof -
  have a: "g_state (seq_request_soft_stop (seq_start boot)) = ST_RUN \<and>
           g_exit (seq_request_soft_stop (seq_start boot)) = EXIT_SOFT"
    by (simp add: seq_defs boot_def)
  have b: "g_state (seq_start boot) = ST_RUN \<and> g_exit (seq_start boot) \<noteq> EXIT_SOFT \<and>
           pulse_count (seq_start boot) = 0"
    by (simp add: seq_defs boot_def)
  have c: "g_state boot = ST_IDLE"
    by (simp add: boot_def)
  show ?thesis
    using a b c slow_expiry_cases [of "seq_request_soft_stop (seq_start boot)"]
      slow_expiry_cases [of "seq_start boot"] slow_expiry_cases [of boot]
    by simp
qed

section \<open>Hard stop\<close>

text \<open>
  C8.  From every starting state (idle or running, any phase, any exit request),
  \<open>seq_hard_stop\<close> ends with state idle, phase 0, no exit request, both timers stopped
  with their interrupt disabled and pending expiry cleared, and all four bridge outputs
  off.
\<close>

theorem hard_stop_resets_everything:
  "g_state (seq_hard_stop m) = ST_IDLE \<and>
   g_t1_cnt (seq_hard_stop m) = 0 \<and>
   g_exit (seq_hard_stop m) = EXIT_NONE \<and>
   \<not> CEN (htim1 (seq_hard_stop m)) \<and> \<not> UIE (htim1 (seq_hard_stop m)) \<and>
   \<not> UIF (htim1 (seq_hard_stop m)) \<and>
   \<not> CEN (htim2 (seq_hard_stop m)) \<and> \<not> UIE (htim2 (seq_hard_stop m)) \<and>
   \<not> UIF (htim2 (seq_hard_stop m)) \<and>
   bridge (seq_hard_stop m) = (False, False, False, False)"
  by (simp add: seq_hard_stop_def seq_hard_stop_body_def all_off_def upd_tim_def bridge_def)

section \<open>The hard exit is never latched\<close>

lemma exec_keeps_not_hard:
  "\<not> assigns_hard_exit s \<Longrightarrow> g_exit m \<noteq> EXIT_HARD \<Longrightarrow> g_exit (exec s m) \<noteq> EXIT_HARD"
  by (cases s) (simp_all add: upd_tim_def split: tim_ref.splits)

lemma run_keeps_not_hard:
  "list_all (\<lambda>s. \<not> assigns_hard_exit s) ss \<Longrightarrow> g_exit m \<noteq> EXIT_HARD \<Longrightarrow>
     g_exit (run ss m) \<noteq> EXIT_HARD"
  by (induction ss arbitrary: m) (simp_all add: exec_keeps_not_hard)

lemma tim_callback_keeps_not_hard:
  "g_exit m \<noteq> EXIT_HARD \<Longrightarrow> g_exit (HAL_TIM_PeriodElapsedCallback inst m) \<noteq> EXIT_HARD"
  unfolding HAL_TIM_PeriodElapsedCallback_def
  by (rule run_keeps_not_hard)
     (simp_all add: HAL_TIM_PeriodElapsedCallback_body_def positive_pulse_actions_def
        negative_pulse_actions_def all_off_def)

lemma uart_callback_keeps_not_hard:
  "g_exit m \<noteq> EXIT_HARD \<Longrightarrow> g_exit (HAL_UARTEx_RxEventCallback inst rx Size m) \<noteq> EXIT_HARD"
  unfolding HAL_UARTEx_RxEventCallback_def
  by (rule run_keeps_not_hard) (simp_all add: HAL_UARTEx_RxEventCallback_body_def)

lemma seq_start_keeps_not_hard:
  "g_exit m \<noteq> EXIT_HARD \<Longrightarrow> g_exit (seq_start m) \<noteq> EXIT_HARD"
  unfolding seq_start_def
  by (rule run_keeps_not_hard) (simp_all add: seq_start_body_def)

lemma apply_set_body_no_hard:
  "list_all (\<lambda>s. \<not> assigns_hard_exit s) (apply_set_body timer v fl)"
  by (simp add: apply_set_body_def Let_def)

lemma apply_set_keeps_not_hard:
  "g_exit m \<noteq> EXIT_HARD \<Longrightarrow> timer = 1 \<or> timer = 2 \<Longrightarrow>
     \<exists>m'. apply_set timer v fl m = Some m' \<and> g_exit m' \<noteq> EXIT_HARD"
  by (simp add: apply_set_def run_keeps_not_hard apply_set_body_no_hard)

lemma main_loop_keeps_not_hard:
  assumes "g_exit m \<noteq> EXIT_HARD"
  shows "\<exists>m'. main_loop m = Continue m' \<and> g_exit m' \<noteq> EXIT_HARD"
proof (cases "command_rcv m = 1")
  case False
  with assms show ?thesis
    by (simp add: main_loop_def)
next
  case True
  define m1 where "m1 = exec (Set_command_rcv 0) m"
  define cmd where "cmd = rx_buf m1 ! 1"
  define timer :: uint8_t where "timer = (if cmd AND 0x01 \<noteq> 0 then 2 else 1)"
  have m1: "g_exit m1 \<noteq> EXIT_HARD"
    using assms by (simp add: m1_def)
  have t: "timer = 1 \<or> timer = 2"
    by (simp add: timer_def)
  obtain m2 where m2: "apply_set timer (rx_value (rx_buf m1)) (rx_buf m1 ! 4) m1 = Some m2"
      "g_exit m2 \<noteq> EXIT_HARD"
    using apply_set_keeps_not_hard [OF m1 t] by blast
  have start: "g_exit (seq_start (exec (Set_soll_pulse_count v) m1)) \<noteq> EXIT_HARD" for v
    using m1 by (intro seq_start_keeps_not_hard) simp
  have stop: "g_exit (seq_request_soft_stop m1) \<noteq> EXIT_HARD"
    by (simp add: seq_request_soft_stop_def seq_request_soft_stop_body_def)
  show ?thesis
    using True m1 m2 start stop
    unfolding main_loop_def Let_def m1_def [symmetric] cmd_def [symmetric] timer_def [symmetric]
    by simp
qed

lemma fire_keeps_looping:
  "looping_without_hard_exit out \<Longrightarrow> looping_without_hard_exit (fire e out)"
proof (cases out)
  case (Continue m)
  assume "looping_without_hard_exit out"
  with Continue have nh: "g_exit m \<noteq> EXIT_HARD"
    by (simp add: looping_without_hard_exit_def)
  show ?thesis
  proof (cases e)
    case (Tim_elapsed inst)
    with Continue nh show ?thesis
      by (simp add: looping_without_hard_exit_def tim_callback_keeps_not_hard)
  next
    case (Uart_rx inst rx Size)
    with Continue nh show ?thesis
      by (simp add: looping_without_hard_exit_def uart_callback_keeps_not_hard)
  next
    case Loop_pass
    with Continue main_loop_keeps_not_hard [OF nh] show ?thesis
      by (auto simp: looping_without_hard_exit_def)
  qed
qed (simp_all add: looping_without_hard_exit_def)

lemma run_events_keeps_looping:
  "looping_without_hard_exit out \<Longrightarrow> looping_without_hard_exit (run_events es out)"
  by (induction es arbitrary: out) (simp_all add: fire_keeps_looping)

text \<open>
  C9.  After any sequence of timer interrupts, receive interrupts and passes of the
  command loop from the start-up state, the command loop is still running (the hard-stop
  branch of the STOP command, which would make \<^verbatim>\<open>main\<close> return, was never taken) and
  the exit request is not \<^verbatim>\<open>EXIT_HARD\<close>.
\<close>

theorem hard_exit_never_latched:
  "\<exists>m. run_events es (Continue boot) = Continue m \<and> g_exit m \<noteq> EXIT_HARD"
proof -
  have "looping_without_hard_exit (Continue boot)"
    by (simp add: looping_without_hard_exit_def boot_def)
  then have "looping_without_hard_exit (run_events es (Continue boot))"
    by (rule run_events_keeps_looping)
  then show ?thesis
    by (cases "run_events es (Continue boot)") (simp_all add: looping_without_hard_exit_def)
qed

section \<open>Pulse-count target of START\<close>

lemma seq_start_soll: "soll_pulse_count (seq_start m) = soll_pulse_count m"
  by (simp add: seq_start_def seq_start_body_def upd_tim_def)

text \<open>
  C10.  When the command loop handles a START frame, the latched pulse-count target is the
  low byte of the frame's 16-bit value field, that is the value modulo 256.  For the frame
  with value 256 the latched target is 0, which differs from the commanded value.
\<close>

theorem start_latches_low_byte:
  "(command_rcv m = 1 \<and> rx_buf m ! 1 AND 0xF0 = CMD_START \<longrightarrow>
      (\<exists>m'. main_loop m = Continue m' \<and>
            soll_pulse_count m' = ucast (rx_value (rx_buf m)) \<and>
            unat (soll_pulse_count m') = unat (rx_value (rx_buf m)) mod 256)) \<and>
   rx_value [0xFF, 0x20, 0x00, 0x01, 0x00] = 256 \<and>
   (\<exists>m'. main_loop (HAL_UARTEx_RxEventCallback USART2 [0xFF, 0x20, 0x00, 0x01, 0x00] 5 boot)
            = Continue m' \<and> soll_pulse_count m' = 0)"
proof (intro conjI impI)
  assume "command_rcv m = 1 \<and> rx_buf m ! 1 AND 0xF0 = CMD_START"
  then show "\<exists>m'. main_loop m = Continue m' \<and>
            soll_pulse_count m' = ucast (rx_value (rx_buf m)) \<and>
            unat (soll_pulse_count m') = unat (rx_value (rx_buf m)) mod 256"
    by (simp add: main_loop_def Let_def seq_start_soll unat_ucast_16_8)
next
  show v: "rx_value [0xFF, 0x20, 0x00, 0x01, 0x00] = 256"
    by (simp add: rx_value_def)
  show "\<exists>m'. main_loop (HAL_UARTEx_RxEventCallback USART2 [0xFF, 0x20, 0x00, 0x01, 0x00] 5 boot)
            = Continue m' \<and> soll_pulse_count m' = 0"
    by (simp add: main_loop_def Let_def seq_start_soll HAL_UARTEx_RxEventCallback_def
        HAL_UARTEx_RxEventCallback_body_def v)
qed

text \<open>A START frame with value 300, received in the start-up state, latches 44.\<close>

theorem start_latches_low_byte_witness:
  "command_rcv (HAL_UARTEx_RxEventCallback USART2 [0xFF, 0x20, 0x2C, 0x01, 0x00] 5 boot) = 1 \<and>
   rx_buf (HAL_UARTEx_RxEventCallback USART2 [0xFF, 0x20, 0x2C, 0x01, 0x00] 5 boot) ! 1 AND 0xF0
     = CMD_START \<and>
   rx_value [0xFF, 0x20, 0x2C, 0x01, 0x00] = 300 \<and>
   (\<exists>m'. main_loop (HAL_UARTEx_RxEventCallback USART2 [0xFF, 0x20, 0x2C, 0x01, 0x00] 5 boot)
            = Continue m' \<and> unat (soll_pulse_count m') = 44)"
proof -
  define m0 where "m0 = HAL_UARTEx_RxEventCallback USART2 [0xFF, 0x20, 0x2C, 0x01, 0x00] 5 boot"
  have buf: "rx_buf m0 = [0xFF, 0x20, 0x2C, 0x01, 0x00]" and rcv: "command_rcv m0 = 1"
    by (simp_all add: m0_def HAL_UARTEx_RxEventCallback_def HAL_UARTEx_RxEventCallback_body_def)
  have cmd: "rx_buf m0 ! 1 AND 0xF0 = CMD_START"
    by (simp add: buf)
  have v: "rx_value [0xFF, 0x20, 0x2C, 0x01, 0x00] = 300"
    by (simp add: rx_value_def)
  from start_latches_low_byte [of m0] rcv cmd buf v show ?thesis
    unfolding m0_def [symmetric] by auto
qed

end
